theory Spec2Isabelle
  imports Main
begin

section \<open>The uploads table and the blob directory\<close>

text \<open>
  \<^verbatim>\<open>server.js\<close> keeps every clipboard item as one row of the SQLite table
  \<^verbatim>\<open>uploads\<close> (created by \<^verbatim>\<open>initDb\<close>). The nullable columns
  \<^verbatim>\<open>filename\<close> and \<^verbatim>\<open>mime_type\<close> are options; timestamps are
  epoch milliseconds. A JavaScript string is read as the list of its code units.
\<close>

record upload_row =
  row_id :: string
  row_type :: string
  row_content :: string
  row_expiry :: int
  row_created_at :: int
  row_filename :: "string option"
  row_mime_type :: "string option"
  row_username :: string

text \<open>
  The process state the handlers share: the table in rowid order, the files present
  under \<^verbatim>\<open>uploads/\<close>, and every \<^verbatim>\<open>fs.unlink\<close> issued so far (oldest
  first). The two flags say whether SQLite hands an error to the callback of a
  \<^verbatim>\<open>SELECT\<close>, respectively of an \<^verbatim>\<open>INSERT\<close> or
  \<^verbatim>\<open>DELETE\<close>: every handler has an \<^verbatim>\<open>if (err)\<close> branch for it.
\<close>

record world =
  uploads :: "upload_row list"
  disk :: "string set"
  unlink_calls :: "string list"
  select_fails :: bool
  write_fails :: bool

datatype 'a sql_result = SqlError | SqlOk 'a

text \<open>\<^verbatim>\<open>db.all(`SELECT ... FROM uploads WHERE <cond>`)\<close>\<close>

definition db_all :: "(upload_row \<Rightarrow> bool) \<Rightarrow> world \<Rightarrow> upload_row list sql_result" where
  "db_all cond w = (if select_fails w then SqlError else SqlOk (filter cond (uploads w)))"

text \<open>\<^verbatim>\<open>db.get(`SELECT * FROM uploads WHERE id = ?`)\<close>: the first matching row, if any.\<close>

definition db_get :: "string \<Rightarrow> world \<Rightarrow> upload_row option sql_result" where
  "db_get ident w =
     (if select_fails w then SqlError
      else SqlOk (find (\<lambda>r. row_id r = ident) (uploads w)))"

text \<open>
  \<^verbatim>\<open>db.run(`DELETE FROM uploads WHERE <cond>`)\<close>: the new state and
  \<^verbatim>\<open>this.changes\<close>, the number of rows the statement removed.
\<close>

definition db_run_delete :: "(upload_row \<Rightarrow> bool) \<Rightarrow> world \<Rightarrow> (world \<times> nat) sql_result" where
  "db_run_delete cond w =
     (if write_fails w then SqlError
      else SqlOk (w\<lparr>uploads := filter (\<lambda>r. \<not> cond r) (uploads w)\<rparr>,
                  length (filter cond (uploads w))))"

text \<open>
  \<^verbatim>\<open>stmt.run\<close> of the \<^verbatim>\<open>INSERT\<close>: \<^verbatim>\<open>id\<close> is the primary key, so a
  row whose id is already in the table is refused with a constraint error.
\<close>

definition db_run_insert :: "upload_row \<Rightarrow> world \<Rightarrow> world sql_result" where
  "db_run_insert r w =
     (if write_fails w \<or> row_id r \<in> set (map row_id (uploads w)) then SqlError
      else SqlOk (w\<lparr>uploads := uploads w @ [r]\<rparr>))"

text \<open>
  \<^verbatim>\<open>fs.unlink(path, cb)\<close> with the callback both call sites pass: the file is
  removed when it is there; \<^verbatim>\<open>ENOENT\<close> is ignored and any other error is only
  logged, so no outcome reaches the caller.
\<close>

definition fs_unlink :: "string \<Rightarrow> world \<Rightarrow> world" where
  "fs_unlink p w = w\<lparr>disk := disk w - {p}, unlink_calls := unlink_calls w @ [p]\<rparr>"

section \<open>Cleanup\<close>

text \<open>
  \<^verbatim>\<open>performCleanup\<close>, with \<^verbatim>\<open>Date.now()\<close> as the argument \<open>now\<close>. The
  function returns nothing to its caller; what it reports is the log line
  \<^verbatim>\<open>Cleanup complete. Deleted ${this.changes} items.\<close>, kept here as the second
  component (\<open>None\<close> when the function returns before or without that line).
\<close>

definition unlink_if_file :: "world \<Rightarrow> upload_row \<Rightarrow> world" where
  "unlink_if_file w r = (if row_type r = ''file'' then fs_unlink (row_content r) w else w)"

definition performCleanup :: "int \<Rightarrow> world \<Rightarrow> world \<times> nat option" where
  "performCleanup now w =
     (case db_all (\<lambda>r. row_expiry r < now) w of
        SqlError \<Rightarrow> (w, None)
      | SqlOk rows \<Rightarrow>
          if length rows = 0 then (w, None)
          else
            let w1 = foldl unlink_if_file w rows in
            (case db_run_delete (\<lambda>r. row_expiry r < now) w1 of
               SqlError \<Rightarrow> (w1, None)
             | SqlOk (w2, changes) \<Rightarrow> (w2, Some changes)))"

text \<open>The count a run reports: \<open>0\<close> when it logged no deletion.\<close>

definition deleted_count :: "world \<times> nat option \<Rightarrow> nat" where
  "deleted_count res = (case snd res of None \<Rightarrow> 0 | Some n \<Rightarrow> n)"

section \<open>Requests, configuration and responses\<close>

text \<open>
  What the body parsers leave under the name of a field: a string or, when the request
  has the field more than once (or its JSON body has an array there), the array of the
  values.
\<close>

datatype form_field = Str string | Arr "string list"

text \<open>
  What a handler reads of an Express request: the three places an API key may come
  from, the \<^verbatim>\<open>:id\<close> route parameter, the form fields of the body
  (\<^verbatim>\<open>undefined\<close> when absent) and the file multer stored. The \<open>text\<close> and
  \<open>expiry\<close> fields are strings; the \<open>username\<close> field, whose \<^verbatim>\<open>length\<close> and
  \<^verbatim>\<open>substring\<close> the upload handler uses, is a string or an array.
\<close>

record multer_file =
  file_path :: string
  originalname :: string
  mimetype :: string

record request =
  header_x_api_key :: "string option"
  query_api_key :: "string option"
  cookie_auth_token :: "string option"
  param_id :: string
  body_text :: "string option"
  body_expiry :: "string option"
  body_username :: "form_field option"
  req_file :: "multer_file option"

text \<open>
  The deployment: the two environment variables the server reads and, the sqlite3
  package being no part of the repository, the text its binding stores for a statement
  parameter that is an array.
\<close>

record env =
  env_API_KEY :: "string option"
  env_BASE_URL :: "string option"
  sqlite3_array_text :: "string list \<Rightarrow> string"

text \<open>JavaScript truthiness of a string-or-undefined, and \<^verbatim>\<open>a || b\<close> on such values.\<close>

definition truthy :: "string option \<Rightarrow> bool" where
  "truthy v = (case v of None \<Rightarrow> False | Some s \<Rightarrow> s \<noteq> [])"

definition js_or :: "string option \<Rightarrow> string option \<Rightarrow> string option" where
  "js_or a b = (if truthy a then a else b)"

definition or_default :: "string option \<Rightarrow> string \<Rightarrow> string" where
  "or_default a d = (case a of None \<Rightarrow> d | Some s \<Rightarrow> if s = [] then d else s)"

definition API_KEY :: "env \<Rightarrow> string" where
  "API_KEY e = or_default (env_API_KEY e) ''default-insecure-key''"

datatype sql_value = Null | Integer int | Text string

type_synonym json_row = "(string \<times> sql_value) list"

text \<open>
  The answers of the routes. \<open>ExpressError n\<close> is the error page of Express's default
  error handler with status \<open>n\<close>: 500 for an exception a handler throws, 404 when
  \<^verbatim>\<open>res.download\<close>, called without a callback, finds no file.
\<close>

datatype response =
    Unauthorized
  | BadRequest
  | DatabaseError string
  | NotFound
  | Gone
  | Uploaded string string int
  | Listing "json_row list"
  | Deleted
  | FileDownload string "string option"
  | TextBody string
  | CleanupStarted
  | ExpressError nat

fun status :: "response \<Rightarrow> nat" where
  "status Unauthorized = 401"
| "status BadRequest = 400"
| "status (DatabaseError _) = 500"
| "status NotFound = 404"
| "status Gone = 410"
| "status (ExpressError n) = n"
| "status _ = 200"

text \<open>
  The middleware \<^verbatim>\<open>authenticateParams\<close>: \<open>True\<close> is \<^verbatim>\<open>next()\<close>, \<open>False\<close>
  is the 401 response.
\<close>

definition authenticateParams :: "env \<Rightarrow> request \<Rightarrow> bool" where
  "authenticateParams e req =
     (let providedKey =
        js_or (js_or (header_x_api_key req) (query_api_key req)) (cookie_auth_token req)
      in truthy providedKey \<and> providedKey = Some (API_KEY e))"

section \<open>Upload\<close>

text \<open>
  \<^verbatim>\<open>parseInt(string)\<close> with no radix, after ECMA-262: leading white space is
  dropped, then an optional sign, then an optional \<^verbatim>\<open>0x\<close> prefix that selects
  radix 16; the longest run of digits is the value and an empty run is \<^verbatim>\<open>NaN\<close>
  (\<open>None\<close>). Code units are bytes here, so of the white space characters the ones up to
  U+00A0 are covered. The value is the exact integer: JavaScript rounds it to a double,
  which changes no integer below \<open>2^53\<close> and never moves a value across 0, 1 or 10080.
\<close>

definition StrWhiteSpaceChar :: "char \<Rightarrow> bool" where
  "StrWhiteSpaceChar c =
     (c \<in> set [CHR 0x09, CHR 0x0A, CHR 0x0B, CHR 0x0C, CHR 0x0D, CHR 0x20, CHR 0xA0])"

definition digit_value :: "char \<Rightarrow> nat option" where
  "digit_value c =
     (let n = (of_char c :: nat) in
      if 48 \<le> n \<and> n \<le> 57 then Some (n - 48)
      else if 97 \<le> n \<and> n \<le> 102 then Some (n - 87)
      else if 65 \<le> n \<and> n \<le> 70 then Some (n - 55)
      else None)"

definition is_digit :: "nat \<Rightarrow> char \<Rightarrow> bool" where
  "is_digit R c = (case digit_value c of None \<Rightarrow> False | Some d \<Rightarrow> d < R)"

definition digit_or_zero :: "char \<Rightarrow> nat" where
  "digit_or_zero c = (case digit_value c of None \<Rightarrow> 0 | Some d \<Rightarrow> d)"

definition digits_value :: "nat \<Rightarrow> string \<Rightarrow> nat" where
  "digits_value R Z = foldl (\<lambda>a c. a * R + digit_or_zero c) 0 Z"

definition parseInt :: "string \<Rightarrow> int option" where
  "parseInt inputString =
     (let S = dropWhile StrWhiteSpaceChar inputString;
          neg = (case S of [] \<Rightarrow> False | c # _ \<Rightarrow> c = CHR ''-'');
          S1 = (case S of [] \<Rightarrow> []
                | c # cs \<Rightarrow> if c = CHR ''+'' \<or> c = CHR ''-'' then cs else S);
          hex = (take 2 S1 = ''0x'' \<or> take 2 S1 = ''0X'');
          R = (if hex then 16 else 10);
          S2 = (if hex then drop 2 S1 else S1);
          Z = takeWhile (is_digit R) S2
      in if Z = [] then None
         else Some ((if neg then - 1 else 1) * int (digits_value R Z)))"

text \<open>
  \<^verbatim>\<open>let expiryMinutes = parseInt(expiry) || 60\<close> followed by the two range checks.
  \<^verbatim>\<open>parseInt(undefined)\<close> is \<^verbatim>\<open>NaN\<close>; \<^verbatim>\<open>NaN\<close> and \<^verbatim>\<open>0\<close> are
  falsy.
\<close>

definition expiryMinutes :: "string option \<Rightarrow> int" where
  "expiryMinutes expiry =
     (let parsed = (case expiry of None \<Rightarrow> None | Some s \<Rightarrow> parseInt s);
          m0 = (case parsed of None \<Rightarrow> 60 | Some n \<Rightarrow> if n = 0 then 60 else n);
          m1 = (if m0 < 1 then 1 else m0);
          m2 = (if m1 > 10080 then 10080 else m1)
      in m2)"

text \<open>
  \<^verbatim>\<open>let uploaderName = username || 'web client'\<close> and the cut at 50 code units
  (\<^verbatim>\<open>length\<close> and \<^verbatim>\<open>substring\<close> count UTF-16 code units). An array is
  truthy, even when empty, and has a \<^verbatim>\<open>length\<close> but no \<^verbatim>\<open>substring\<close>:
  with more than 50 entries the call of \<^verbatim>\<open>substring\<close> throws a
  \<^verbatim>\<open>TypeError\<close>.
\<close>

datatype js_error = TypeError

definition uploaderName :: "form_field option \<Rightarrow> js_error + form_field" where
  "uploaderName username =
     (let u = (case username of None \<Rightarrow> Str ''web client''
               | Some (Str s) \<Rightarrow> if s = [] then Str ''web client'' else Str s
               | Some (Arr xs) \<Rightarrow> Arr xs)
      in case u of
           Str s \<Rightarrow> Inr (if length s > 50 then Str (take 50 s) else Str s)
         | Arr xs \<Rightarrow> if length xs > 50 then Inl TypeError else Inr (Arr xs))"

text \<open>
  The handler of \<^verbatim>\<open>POST /api/upload\<close>. \<open>new_id\<close> is the value of
  \<^verbatim>\<open>uuidv4()\<close> and \<open>now\<close> the value of \<^verbatim>\<open>Date.now()\<close>. An exception
  thrown while the name is computed leaves the handler before the \<^verbatim>\<open>INSERT\<close>;
  Express answers it with its 500 error page.
\<close>

definition upload_handler ::
  "env \<Rightarrow> string \<Rightarrow> int \<Rightarrow> request \<Rightarrow> world \<Rightarrow> response \<times> world" where
  "upload_handler e new_id now req w =
     (let text = body_text req; file = req_file req in
      if file = None \<and> \<not> truthy text then (BadRequest, w)
      else
        let type = (case file of Some _ \<Rightarrow> ''file'' | None \<Rightarrow> ''text'');
            content = (case file of Some f \<Rightarrow> file_path f
                       | None \<Rightarrow> (case text of Some t \<Rightarrow> t | None \<Rightarrow> []));
            filename = (case file of Some f \<Rightarrow> Some (originalname f) | None \<Rightarrow> None);
            mimeType = (case file of Some f \<Rightarrow> mimetype f | None \<Rightarrow> ''text/plain'');
            createdAt = now;
            expiryTime = createdAt + expiryMinutes (body_expiry req) * 60 * 1000
        in (case uploaderName (body_username req) of
              Inl _ \<Rightarrow> (ExpressError 500, w)
            | Inr name \<Rightarrow>
                let r = \<lparr>row_id = new_id, row_type = type, row_content = content,
                         row_expiry = expiryTime, row_created_at = createdAt,
                         row_filename = filename, row_mime_type = Some mimeType,
                         row_username = (case name of Str s \<Rightarrow> s
                                         | Arr xs \<Rightarrow> sqlite3_array_text e xs)\<rparr>
                in (case db_run_insert r w of
                      SqlError \<Rightarrow> (DatabaseError ''Database error'', w)
                    | SqlOk w' \<Rightarrow>
                        (Uploaded new_id
                           (or_default (env_BASE_URL e) ''http://localhost:3000''
                              @ ''/api/download/'' @ new_id)
                           expiryTime, w'))))"

section \<open>List, delete, download\<close>

text \<open>
  The columns \<^verbatim>\<open>GET /api/list\<close> selects, as the JSON object sent for a row:
  \<^verbatim>\<open>id, type, created_at, expiry, filename, username\<close>.
\<close>

definition list_columns :: "upload_row \<Rightarrow> json_row" where
  "list_columns r =
     [(''id'', Text (row_id r)), (''type'', Text (row_type r)),
      (''created_at'', Integer (row_created_at r)), (''expiry'', Integer (row_expiry r)),
      (''filename'', (case row_filename r of None \<Rightarrow> Null | Some f \<Rightarrow> Text f)),
      (''username'', Text (row_username r))]"

text \<open>
  \<^verbatim>\<open>WHERE expiry > ? ORDER BY created_at DESC\<close>. SQL leaves the order of rows
  with equal \<^verbatim>\<open>created_at\<close> open; the model keeps them in table order.
\<close>

definition select_active :: "int \<Rightarrow> upload_row list \<Rightarrow> upload_row list" where
  "select_active now rows =
     sort_key (\<lambda>r. - row_created_at r) (filter (\<lambda>r. row_expiry r > now) rows)"

definition list_handler :: "int \<Rightarrow> world \<Rightarrow> response \<times> world" where
  "list_handler now w =
     (if select_fails w then (DatabaseError ''Database error'', w)
      else (Listing (map list_columns (select_active now (uploads w))), w))"

definition delete_handler :: "request \<Rightarrow> world \<Rightarrow> response \<times> world" where
  "delete_handler req w =
     (let ident = param_id req in
      case db_get ident w of
        SqlError \<Rightarrow> (DatabaseError ''Database error'', w)
      | SqlOk None \<Rightarrow> (NotFound, w)
      | SqlOk (Some row) \<Rightarrow>
          let w1 = unlink_if_file w row in
          (case db_run_delete (\<lambda>r. row_id r = ident) w1 of
             SqlError \<Rightarrow> (DatabaseError ''Database error deleting item'', w1)
           | SqlOk (w2, _) \<Rightarrow> (Deleted, w2)))"

text \<open>
  The handler of \<^verbatim>\<open>GET /api/download/:id\<close>. \<^verbatim>\<open>res.download(row.content,
  row.filename)\<close> sends the file at that path when it is on disk; the handler passes no
  callback and checks nothing before, so when the file is missing the error goes to
  Express's default error handler, which answers with its 404 error page.
\<close>

definition download_handler :: "int \<Rightarrow> request \<Rightarrow> world \<Rightarrow> response \<times> world" where
  "download_handler now req w =
     (case db_get (param_id req) w of
        SqlError \<Rightarrow> (DatabaseError ''Database error'', w)
      | SqlOk None \<Rightarrow> (NotFound, w)
      | SqlOk (Some row) \<Rightarrow>
          if row_expiry row < now then (Gone, w)
          else if row_type row = ''file''
            then (if row_content row \<in> disk w
                  then (FileDownload (row_content row) (row_filename row), w)
                  else (ExpressError 404, w))
            else (TextBody (row_content row), w))"

definition cleanup_handler :: "int \<Rightarrow> world \<Rightarrow> response \<times> world" where
  "cleanup_handler now w = (CleanupStarted, fst (performCleanup now w))"

section \<open>The routes\<close>

text \<open>
  The five item routes as \<^verbatim>\<open>app.post\<close>, \<^verbatim>\<open>app.get\<close> and
  \<^verbatim>\<open>app.delete\<close> register them: four with \<^verbatim>\<open>authenticateParams\<close> before
  the handler, the download route without.
\<close>

datatype route = PostUpload | GetList | DeleteItem | GetDownload | DeleteCleanup

text \<open>
  \<^verbatim>\<open>upload.single('file')\<close> runs first on the upload route: multer has written
  the file of the request, if it has one, to \<^verbatim>\<open>uploads/\<close> before the key is
  checked.
\<close>

definition upload_single :: "request \<Rightarrow> world \<Rightarrow> world" where
  "upload_single req w =
     (case req_file req of None \<Rightarrow> w
      | Some f \<Rightarrow> w\<lparr>disk := insert (file_path f) (disk w)\<rparr>)"

definition guarded ::
  "env \<Rightarrow> request \<Rightarrow> world \<Rightarrow> (world \<Rightarrow> response \<times> world) \<Rightarrow> response \<times> world" where
  "guarded e req w handler =
     (if authenticateParams e req then handler w else (Unauthorized, w))"

fun app :: "env \<Rightarrow> string \<Rightarrow> int \<Rightarrow> route \<Rightarrow> request \<Rightarrow> world \<Rightarrow> response \<times> world" where
  "app e new_id now PostUpload req w =
     guarded e req (upload_single req w) (upload_handler e new_id now req)"
| "app e new_id now GetList req w = guarded e req w (list_handler now)"
| "app e new_id now DeleteItem req w = guarded e req w (delete_handler req)"
| "app e new_id now GetDownload req w = download_handler now req w"
| "app e new_id now DeleteCleanup req w = guarded e req w (cleanup_handler now)"

section \<open>Reading the model\<close>

text \<open>
  The decimal numeral of an integer, as a form field carries it (what
  \<^verbatim>\<open>String(n)\<close> gives for an integer below \<open>10^21\<close>).
\<close>

fun decimal_nat :: "nat \<Rightarrow> string" where
  "decimal_nat n =
     (if n < 10 then [char_of (48 + n)]
      else decimal_nat (n div 10) @ [char_of (48 + n mod 10)])"

definition decimal :: "int \<Rightarrow> string" where
  "decimal t = (if t < 0 then CHR ''-'' # decimal_nat (nat (- t)) else decimal_nat (nat t))"

text \<open>The integer a listed JSON object holds under a key, if it holds one.\<close>

definition json_int :: "string \<Rightarrow> json_row \<Rightarrow> int option" where
  "json_int k e = (case map_of e k of Some (Integer n) \<Rightarrow> Some n | _ \<Rightarrow> None)"

text \<open>The ids in the table; the primary key constraint is \<open>distinct (ids w)\<close>.\<close>

definition ids :: "world \<Rightarrow> string list" where
  "ids w = map row_id (uploads w)"

text \<open>Sample data: a file item, a text item, and a state that holds both.\<close>

definition file_row :: upload_row where
  "file_row = \<lparr>row_id = ''f1'', row_type = ''file'', row_content = ''uploads/u-a.png'',
     row_expiry = 50, row_created_at = 10, row_filename = Some ''a.png'',
     row_mime_type = Some ''image/png'', row_username = ''bob''\<rparr>"

definition text_row :: upload_row where
  "text_row = \<lparr>row_id = ''t1'', row_type = ''text'', row_content = ''hello'',
     row_expiry = 100, row_created_at = 40, row_filename = None,
     row_mime_type = Some ''text/plain'', row_username = ''web client''\<rparr>"

definition sample_world :: world where
  "sample_world = \<lparr>uploads = [file_row, text_row], disk = {''uploads/u-a.png''},
     unlink_calls = [], select_fails = False, write_fails = False\<rparr>"

definition empty_world :: world where
  "empty_world = \<lparr>uploads = [], disk = {}, unlink_calls = [],
     select_fails = False, write_fails = False\<rparr>"

definition sample_env :: env where
  "sample_env = \<lparr>env_API_KEY = Some ''secret'', env_BASE_URL = None,
     sqlite3_array_text = (\<lambda>xs. ''[object Object]'')\<rparr>"

definition anonymous :: "string \<Rightarrow> request" where
  "anonymous ident = \<lparr>header_x_api_key = None, query_api_key = None,
     cookie_auth_token = None, param_id = ident, body_text = None,
     body_expiry = None, body_username = None, req_file = None\<rparr>"

section \<open>Properties of the cleanup\<close>

lemma foldl_unlink_uploads:
  "uploads (foldl unlink_if_file w rows) = uploads w"
  by (induction rows arbitrary: w) (simp_all add: unlink_if_file_def fs_unlink_def)

lemma foldl_unlink_flags:
  "select_fails (foldl unlink_if_file w rows) = select_fails w \<and>
   write_fails (foldl unlink_if_file w rows) = write_fails w"
  by (induction rows arbitrary: w) (simp_all add: unlink_if_file_def fs_unlink_def)

lemma foldl_unlink_calls:
  "unlink_calls (foldl unlink_if_file w rows) =
     unlink_calls w @ map row_content (filter (\<lambda>r. row_type r = ''file'') rows)"
  by (induction rows arbitrary: w) (simp_all add: unlink_if_file_def fs_unlink_def)

lemma foldl_unlink_disk:
  "disk (foldl unlink_if_file w rows) =
     disk w - set (map row_content (filter (\<lambda>r. row_type r = ''file'') rows))"
  by (induction rows arbitrary: w) (auto simp add: unlink_if_file_def fs_unlink_def)

lemma performCleanup_nothing_expired:
  assumes "filter (\<lambda>r. row_expiry r < now) (uploads w) = []"
  shows "performCleanup now w = (w, None)"
  using assms by (simp add: performCleanup_def db_all_def)

lemma performCleanup_uploads:
  assumes "\<not> select_fails w" and "\<not> write_fails w"
  shows "uploads (fst (performCleanup now w)) = filter (\<lambda>r. \<not> row_expiry r < now) (uploads w)"
proof (cases "filter (\<lambda>r. row_expiry r < now) (uploads w) = []")
  case True
  then have "filter (\<lambda>r. \<not> row_expiry r < now) (uploads w) = uploads w"
    by (simp add: filter_empty_conv)
  with True show ?thesis
    by (simp add: performCleanup_nothing_expired)
next
  case False
  with assms show ?thesis
    by (simp add: performCleanup_def db_all_def db_run_delete_def Let_def
        foldl_unlink_uploads foldl_unlink_flags)
qed

lemma performCleanup_unlinks:
  assumes "\<not> select_fails w" and "\<not> write_fails w"
  shows "unlink_calls (fst (performCleanup now w)) =
           unlink_calls w @ map row_content
             (filter (\<lambda>r. row_type r = ''file'') (filter (\<lambda>r. row_expiry r < now) (uploads w)))
       \<and> disk (fst (performCleanup now w)) =
           disk w - set (map row_content
             (filter (\<lambda>r. row_type r = ''file'') (filter (\<lambda>r. row_expiry r < now) (uploads w))))"
proof (cases "filter (\<lambda>r. row_expiry r < now) (uploads w) = []")
  case True
  then show ?thesis
    by (simp add: performCleanup_nothing_expired)
next
  case False
  with assms show ?thesis
    by (simp add: performCleanup_def db_all_def db_run_delete_def Let_def
        foldl_unlink_calls foldl_unlink_disk foldl_unlink_flags)
qed

lemma performCleanup_count:
  assumes "\<not> select_fails w" and "\<not> write_fails w"
  shows "deleted_count (performCleanup now w) =
           length (filter (\<lambda>r. row_expiry r < now) (uploads w))"
proof (cases "filter (\<lambda>r. row_expiry r < now) (uploads w) = []")
  case True
  then show ?thesis
    by (simp add: performCleanup_nothing_expired deleted_count_def)
next
  case False
  with assms show ?thesis
    by (simp add: performCleanup_def db_all_def db_run_delete_def Let_def deleted_count_def
        foldl_unlink_uploads foldl_unlink_flags)
qed

lemma performCleanup_flags:
  "select_fails (fst (performCleanup now w)) = select_fails w \<and>
   write_fails (fst (performCleanup now w)) = write_fails w"
  by (simp add: performCleanup_def db_all_def db_run_delete_def Let_def foldl_unlink_flags)

text \<open>
  C1, as the code has it: a run of \<^verbatim>\<open>performCleanup\<close> at time \<open>now\<close> on a database
  that answers selects the rows with \<open>expiry < now\<close> (a row that expires at \<open>now\<close>
  itself is not among them). It calls \<^verbatim>\<open>fs.unlink\<close> once for each selected row of
  type \<^verbatim>\<open>file\<close>, in table order and for no other row, so none of these blobs is on
  disk afterwards; it removes the selected rows and keeps every other row; and the count
  it reports is the number of rows removed.
\<close>

theorem performCleanup_removes_expired:
  assumes "\<not> select_fails w" and "\<not> write_fails w"
  shows "uploads (fst (performCleanup now w)) = filter (\<lambda>r. now \<le> row_expiry r) (uploads w)
       \<and> unlink_calls (fst (performCleanup now w)) =
           unlink_calls w @ map row_content
             (filter (\<lambda>r. row_type r = ''file'') (filter (\<lambda>r. row_expiry r < now) (uploads w)))
       \<and> disk (fst (performCleanup now w)) =
           disk w - set (map row_content
             (filter (\<lambda>r. row_type r = ''file'') (filter (\<lambda>r. row_expiry r < now) (uploads w))))
       \<and> deleted_count (performCleanup now w) =
           length (filter (\<lambda>r. row_expiry r < now) (uploads w))
       \<and> deleted_count (performCleanup now w) =
           length (uploads w) - length (uploads (fst (performCleanup now w)))"
proof -
  have keep: "(\<lambda>r. \<not> row_expiry r < now) = (\<lambda>r. now \<le> row_expiry r)"
    by (simp add: fun_eq_iff not_less)
  have rows: "uploads (fst (performCleanup now w)) = filter (\<lambda>r. now \<le> row_expiry r) (uploads w)"
    using performCleanup_uploads [OF assms, of now] by (simp add: keep)
  have "length (uploads w) =
          length (filter (\<lambda>r. row_expiry r < now) (uploads w))
        + length (filter (\<lambda>r. \<not> row_expiry r < now) (uploads w))"
    by (rule sum_length_filter_compl [symmetric])
  then have diff: "length (filter (\<lambda>r. row_expiry r < now) (uploads w)) =
      length (uploads w) - length (filter (\<lambda>r. now \<le> row_expiry r) (uploads w))"
    by (simp add: keep)
  show ?thesis
    using rows diff performCleanup_unlinks [OF assms, of now] performCleanup_count [OF assms, of now]
    by simp
qed

theorem performCleanup_removes_expired_witness:
  "\<not> select_fails sample_world \<and> \<not> write_fails sample_world
   \<and> uploads (fst (performCleanup 60 sample_world)) = [text_row]
   \<and> unlink_calls (fst (performCleanup 60 sample_world)) = [''uploads/u-a.png'']
   \<and> disk (fst (performCleanup 60 sample_world)) = {}
   \<and> deleted_count (performCleanup 60 sample_world) = 1"
  using performCleanup_removes_expired [of sample_world 60]
  by (simp add: sample_world_def file_row_def text_row_def)

text \<open>
  The claim's boundary \<open>expiresAt \<le> now\<close> fails: at \<open>now = 50\<close> the file row that
  expires at 50 is neither unlinked nor deleted, and the run reports nothing.
\<close>

theorem performCleanup_keeps_row_expiring_now:
  "row_expiry file_row \<le> 50
   \<and> uploads (fst (performCleanup 50 sample_world)) = [file_row, text_row]
   \<and> unlink_calls (fst (performCleanup 50 sample_world)) = []
   \<and> deleted_count (performCleanup 50 sample_world) = 0"
  by (simp add: performCleanup_def db_all_def deleted_count_def sample_world_def
      file_row_def text_row_def)

text \<open>
  C5, as the code has it: when the database answers, a second run of
  \<^verbatim>\<open>performCleanup\<close> at the same \<open>now\<close> reports no deletion (count 0), issues no
  \<^verbatim>\<open>fs.unlink\<close> and leaves the state as the first run left it, and no row with
  \<open>expiry < now\<close> remains (a row that expires at \<open>now\<close> itself does remain).
\<close>

theorem performCleanup_twice:
  assumes "\<not> select_fails w" and "\<not> write_fails w"
  shows "performCleanup now (fst (performCleanup now w)) = (fst (performCleanup now w), None)
       \<and> deleted_count (performCleanup now (fst (performCleanup now w))) = 0
       \<and> (\<forall>r \<in> set (uploads (fst (performCleanup now (fst (performCleanup now w))))).
            now \<le> row_expiry r)"
proof -
  let ?w1 = "fst (performCleanup now w)"
  have "uploads ?w1 = filter (\<lambda>r. \<not> row_expiry r < now) (uploads w)"
    by (rule performCleanup_uploads [OF assms])
  then have none: "filter (\<lambda>r. row_expiry r < now) (uploads ?w1) = []"
    by (simp add: filter_empty_conv)
  then have again: "performCleanup now ?w1 = (?w1, None)"
    by (rule performCleanup_nothing_expired)
  from none have "\<forall>r \<in> set (uploads ?w1). now \<le> row_expiry r"
    by (simp add: filter_empty_conv not_less)
  with again show ?thesis
    by (simp add: deleted_count_def)
qed

theorem performCleanup_twice_witness:
  "\<not> select_fails sample_world \<and> \<not> write_fails sample_world
   \<and> fst (performCleanup 60 sample_world) =
       sample_world\<lparr>uploads := [text_row], disk := {}, unlink_calls := [''uploads/u-a.png'']\<rparr>
   \<and> deleted_count (performCleanup 60 (fst (performCleanup 60 sample_world))) = 0
   \<and> uploads (fst (performCleanup 60 (fst (performCleanup 60 sample_world)))) = [text_row]"
proof -
  have first: "fst (performCleanup 60 sample_world) =
      sample_world\<lparr>uploads := [text_row], disk := {}, unlink_calls := [''uploads/u-a.png'']\<rparr>"
    by (simp add: performCleanup_def db_all_def db_run_delete_def unlink_if_file_def
        fs_unlink_def sample_world_def file_row_def text_row_def)
  have ok: "\<not> select_fails sample_world" "\<not> write_fails sample_world"
    by (simp_all add: sample_world_def)
  from performCleanup_twice [OF ok, of 60] first ok show ?thesis
    by (simp add: deleted_count_def)
qed

text \<open>
  The claim's boundary fails here too: after two runs at \<open>now = 50\<close> the row that
  expires at 50 is still in the table.
\<close>

theorem performCleanup_twice_keeps_row_expiring_now:
  "row_expiry file_row \<le> 50
   \<and> uploads (fst (performCleanup 50 (fst (performCleanup 50 sample_world)))) =
       [file_row, text_row]"
  by (simp add: performCleanup_def db_all_def sample_world_def file_row_def text_row_def)

section \<open>The primary key\<close>

lemma performCleanup_filters:
  "\<exists>P. uploads (fst (performCleanup now w)) = filter P (uploads w)"
proof (cases "select_fails w \<or> write_fails w
    \<or> filter (\<lambda>r. row_expiry r < now) (uploads w) = []")
  case True
  then have "uploads (fst (performCleanup now w)) = uploads w"
    by (auto simp add: performCleanup_def db_all_def db_run_delete_def Let_def
        foldl_unlink_uploads foldl_unlink_flags)
  then have "uploads (fst (performCleanup now w)) = filter (\<lambda>r. True) (uploads w)"
    by simp
  then show ?thesis by blast
next
  case False
  then have "uploads (fst (performCleanup now w)) =
      filter (\<lambda>r. \<not> row_expiry r < now) (uploads w)"
    by (simp add: performCleanup_uploads)
  then show ?thesis by blast
qed

lemma delete_handler_filters:
  "\<exists>P. uploads (snd (delete_handler req w)) = filter P (uploads w)"
proof (cases "fst (delete_handler req w) = Deleted")
  case True
  then have "uploads (snd (delete_handler req w)) =
      filter (\<lambda>r. row_id r \<noteq> param_id req) (uploads w)"
    by (auto simp add: delete_handler_def db_get_def db_run_delete_def unlink_if_file_def
        fs_unlink_def Let_def split: if_splits option.splits)
  then show ?thesis by blast
next
  case False
  then have "uploads (snd (delete_handler req w)) = uploads w"
    by (auto simp add: delete_handler_def db_get_def db_run_delete_def unlink_if_file_def
        fs_unlink_def Let_def split: if_splits option.splits)
  then have "uploads (snd (delete_handler req w)) = filter (\<lambda>r. True) (uploads w)"
    by simp
  then show ?thesis by blast
qed

lemma upload_handler_keeps_primary_key:
  assumes "distinct (ids w)"
  shows "distinct (ids (snd (upload_handler e new_id now req w)))"
  using assms
  by (auto simp add: upload_handler_def db_run_insert_def ids_def Let_def
      split: sum.splits)

lemma app_keeps_primary_key:
  assumes "distinct (ids w)"
  shows "distinct (ids (snd (app e new_id now rt req w)))"
proof (cases rt)
  case PostUpload
  have "ids (upload_single req w) = ids w"
    by (simp add: upload_single_def ids_def split: option.splits)
  with assms have d: "distinct (ids (upload_single req w))" by simp
  from upload_handler_keeps_primary_key [OF d] d PostUpload show ?thesis
    by (simp add: guarded_def)
next
  case GetList
  with assms show ?thesis
    by (simp add: guarded_def list_handler_def)
next
  case DeleteItem
  from delete_handler_filters obtain P where
    "uploads (snd (delete_handler req w)) = filter P (uploads w)" by blast
  with assms DeleteItem show ?thesis
    by (simp add: guarded_def ids_def distinct_map_filter)
next
  case GetDownload
  with assms show ?thesis
    by (simp add: download_handler_def split: sql_result.splits option.splits)
next
  case DeleteCleanup
  from performCleanup_filters obtain P where
    "uploads (fst (performCleanup now w)) = filter P (uploads w)" by blast
  with assms DeleteCleanup show ?thesis
    by (simp add: guarded_def cleanup_handler_def ids_def distinct_map_filter)
qed


section \<open>Properties of the list route\<close>

lemma set_select_active:
  "set (select_active now rows) = {r \<in> set rows. now < row_expiry r}"
  by (auto simp add: select_active_def)

lemma length_select_active:
  "length (select_active now rows) = length (filter (\<lambda>r. now < row_expiry r) rows)"
  by (simp add: select_active_def)

lemma select_active_descending:
  "sorted_wrt (\<ge>) (map row_created_at (select_active now rows))"
proof -
  have "sorted (map (\<lambda>r. - row_created_at r) (select_active now rows))"
    unfolding select_active_def by (rule sorted_sort_key)
  then show ?thesis
    by (simp add: sorted_wrt_map)
qed

lemma list_columns_created_at:
  "json_int ''created_at'' (list_columns r) = Some (row_created_at r)"
  by (simp add: json_int_def list_columns_def)

lemma list_columns_no_content:
  "map_of (list_columns r) ''content'' = None"
  by (simp add: list_columns_def)

lemma list_columns_expiry:
  "list_columns r = list_columns r' \<Longrightarrow> row_expiry r = row_expiry r'"
  by (simp add: list_columns_def)

text \<open>
  C2: when the database answers, \<^verbatim>\<open>GET /api/list\<close> at time \<open>now\<close> lists a row of
  the table if and only if its \<open>expiry > now\<close>, one entry per such row and no other
  entry; the entries come in descending order of \<open>created_at\<close>; and no entry, of a file
  item or of a text item, has a \<open>content\<close> field. The table is left as it was.
\<close>

theorem list_handler_live_sorted_summary:
  assumes "\<not> select_fails w"
  shows "\<exists>entries. list_handler now w = (Listing entries, w)
       \<and> (\<forall>r \<in> set (uploads w). (list_columns r \<in> set entries) = (now < row_expiry r))
       \<and> set entries \<subseteq> list_columns ` set (uploads w)
       \<and> length entries = length (filter (\<lambda>r. now < row_expiry r) (uploads w))
       \<and> (\<exists>cs. map (json_int ''created_at'') entries = map Some cs \<and> sorted_wrt (\<ge>) cs)
       \<and> (\<forall>e \<in> set entries. map_of e ''content'' = None)"
proof -
  let ?rows = "select_active now (uploads w)"
  let ?entries = "map list_columns ?rows"
  have resp: "list_handler now w = (Listing ?entries, w)"
    using assms by (simp add: list_handler_def)
  have iff: "\<forall>r \<in> set (uploads w). (list_columns r \<in> set ?entries) = (now < row_expiry r)"
  proof
    fix r assume r: "r \<in> set (uploads w)"
    show "(list_columns r \<in> set ?entries) = (now < row_expiry r)"
    proof
      assume "list_columns r \<in> set ?entries"
      then obtain r' where "r' \<in> set ?rows" and "list_columns r = list_columns r'"
        by auto
      then show "now < row_expiry r"
        using list_columns_expiry [of r r'] by (simp add: set_select_active)
    next
      assume "now < row_expiry r"
      with r have "r \<in> set ?rows" by (simp add: set_select_active)
      then show "list_columns r \<in> set ?entries" by simp
    qed
  qed
  have sub: "set ?entries \<subseteq> list_columns ` set (uploads w)"
    by (auto simp add: set_select_active)
  have len: "length ?entries = length (filter (\<lambda>r. now < row_expiry r) (uploads w))"
    by (simp add: length_select_active)
  have "map (json_int ''created_at'') ?entries = map Some (map row_created_at ?rows)"
    by (simp add: list_columns_created_at)
  then have ord: "\<exists>cs. map (json_int ''created_at'') ?entries = map Some cs \<and> sorted_wrt (\<ge>) cs"
    using select_active_descending by blast
  have nocontent: "\<forall>e \<in> set ?entries. map_of e ''content'' = None"
    by (auto simp add: list_columns_no_content)
  from resp iff sub len ord nocontent show ?thesis
    by blast
qed

theorem list_handler_live_sorted_summary_witness:
  "\<not> select_fails sample_world
   \<and> list_handler 50 sample_world =
       (Listing [[(''id'', Text ''t1''), (''type'', Text ''text''),
                  (''created_at'', Integer 40), (''expiry'', Integer 100),
                  (''filename'', Null), (''username'', Text ''web client'')]], sample_world)
   \<and> list_columns file_row \<notin> set (map list_columns (select_active 50 (uploads sample_world)))"
proof -
  have ok: "\<not> select_fails sample_world"
    by (simp add: sample_world_def)
  have val: "list_handler 50 sample_world =
       (Listing [[(''id'', Text ''t1''), (''type'', Text ''text''),
                  (''created_at'', Integer 40), (''expiry'', Integer 100),
                  (''filename'', Null), (''username'', Text ''web client'')]], sample_world)"
    by (simp add: list_handler_def select_active_def list_columns_def sample_world_def
        file_row_def text_row_def)
  have mem: "file_row \<in> set (uploads sample_world)"
    by (simp add: sample_world_def)
  have "\<not> (50::int) < row_expiry file_row"
    by (simp add: file_row_def)
  moreover have "list_handler 50 sample_world =
      (Listing (map list_columns (select_active 50 (uploads sample_world))), sample_world)"
    using ok by (simp add: list_handler_def)
  ultimately have "list_columns file_row \<notin> set (map list_columns (select_active 50 (uploads sample_world)))"
    using list_handler_live_sorted_summary [OF ok, of 50] mem by auto
  with ok val show ?thesis by simp
qed

section \<open>Properties of lookup, download and delete\<close>

lemma db_get_absent:
  assumes "\<not> select_fails w" and "ident \<notin> set (ids w)"
  shows "db_get ident w = SqlOk None"
proof -
  from assms(2) have "find (\<lambda>r. row_id r = ident) (uploads w) = None"
    by (auto simp add: ids_def find_None_iff)
  with assms(1) show ?thesis by (simp add: db_get_def)
qed





lemma delete_handler_absent:
  assumes "\<not> select_fails w" and "param_id req \<notin> set (ids w)"
  shows "delete_handler req w = (NotFound, w)"
  using db_get_absent [OF assms] by (simp add: delete_handler_def)

lemma delete_handler_Deleted:
  assumes "fst (delete_handler req w) = Deleted"
  shows "\<not> select_fails (snd (delete_handler req w))
       \<and> param_id req \<notin> set (ids (snd (delete_handler req w)))"
  using assms
  by (auto simp add: delete_handler_def db_get_def db_run_delete_def unlink_if_file_def
      fs_unlink_def ids_def Let_def split: if_splits option.splits)

text \<open>
  C6: when the database answers, \<^verbatim>\<open>DELETE /api/delete/:id\<close> for an id that no row
  has answers 404, calls no \<^verbatim>\<open>fs.unlink\<close> and changes nothing. So after a delete
  that answered \<^verbatim>\<open>Item deleted\<close>, the id is gone from the table and a second
  delete of the same id answers 404 without a second \<^verbatim>\<open>fs.unlink\<close>.
\<close>

theorem delete_handler_not_found:
  assumes "\<not> select_fails w"
  shows "(param_id req \<notin> set (ids w) \<longrightarrow> delete_handler req w = (NotFound, w))
       \<and> status NotFound = 404
       \<and> (fst (delete_handler req w) = Deleted \<longrightarrow>
            param_id req \<notin> set (ids (snd (delete_handler req w)))
          \<and> delete_handler req (snd (delete_handler req w)) =
              (NotFound, snd (delete_handler req w))
          \<and> unlink_calls (snd (delete_handler req (snd (delete_handler req w)))) =
              unlink_calls (snd (delete_handler req w)))"
proof -
  have first: "param_id req \<notin> set (ids w) \<longrightarrow> delete_handler req w = (NotFound, w)"
    using delete_handler_absent [OF assms] by simp
  have second: "fst (delete_handler req w) = Deleted \<longrightarrow>
            param_id req \<notin> set (ids (snd (delete_handler req w)))
          \<and> delete_handler req (snd (delete_handler req w)) =
              (NotFound, snd (delete_handler req w))
          \<and> unlink_calls (snd (delete_handler req (snd (delete_handler req w)))) =
              unlink_calls (snd (delete_handler req w))"
  proof
    assume "fst (delete_handler req w) = Deleted"
    from delete_handler_Deleted [OF this]
    have gone: "\<not> select_fails (snd (delete_handler req w))"
      "param_id req \<notin> set (ids (snd (delete_handler req w)))"
      by simp_all
    from delete_handler_absent [OF gone]
    have "delete_handler req (snd (delete_handler req w)) = (NotFound, snd (delete_handler req w))" .
    with gone(2) show "param_id req \<notin> set (ids (snd (delete_handler req w)))
          \<and> delete_handler req (snd (delete_handler req w)) =
              (NotFound, snd (delete_handler req w))
          \<and> unlink_calls (snd (delete_handler req (snd (delete_handler req w)))) =
              unlink_calls (snd (delete_handler req w))"
      by simp
  qed
  from first second show ?thesis by simp
qed

theorem delete_handler_not_found_witness:
  "\<not> select_fails sample_world
   \<and> delete_handler (anonymous ''nope'') sample_world = (NotFound, sample_world)
   \<and> delete_handler (anonymous ''f1'') sample_world =
       (Deleted, sample_world\<lparr>uploads := [text_row], disk := {},
                   unlink_calls := [''uploads/u-a.png'']\<rparr>)
   \<and> delete_handler (anonymous ''f1'')
        (sample_world\<lparr>uploads := [text_row], disk := {},
                   unlink_calls := [''uploads/u-a.png'']\<rparr>) =
       (NotFound, sample_world\<lparr>uploads := [text_row], disk := {},
                   unlink_calls := [''uploads/u-a.png'']\<rparr>)"
proof -
  have ok: "\<not> select_fails sample_world"
    by (simp add: sample_world_def)
  have absent: "param_id (anonymous ''nope'') \<notin> set (ids sample_world)"
    by (simp add: anonymous_def ids_def sample_world_def file_row_def text_row_def)
  have del: "delete_handler (anonymous ''f1'') sample_world =
       (Deleted, sample_world\<lparr>uploads := [text_row], disk := {},
                   unlink_calls := [''uploads/u-a.png'']\<rparr>)"
    by (simp add: delete_handler_def db_get_def db_run_delete_def unlink_if_file_def
        fs_unlink_def anonymous_def sample_world_def file_row_def text_row_def)
  from delete_handler_not_found [OF ok, of "anonymous ''nope''"] absent
  have "delete_handler (anonymous ''nope'') sample_world = (NotFound, sample_world)"
    by simp
  moreover from delete_handler_not_found [OF ok, of "anonymous ''f1''"] del
  have "delete_handler (anonymous ''f1'')
        (sample_world\<lparr>uploads := [text_row], disk := {},
                   unlink_calls := [''uploads/u-a.png'']\<rparr>) =
       (NotFound, sample_world\<lparr>uploads := [text_row], disk := {},
                   unlink_calls := [''uploads/u-a.png'']\<rparr>)"
    by simp
  ultimately show ?thesis using ok del by simp
qed

section \<open>Properties of the upload route\<close>

lemma digit_value_char_of: "d < 10 \<Longrightarrow> digit_value (char_of (48 + d)) = Some d"
  by (simp add: digit_value_def Let_def)

lemma is_digit_char_of: "(d::nat) < 10 \<Longrightarrow> is_digit 10 (char_of (48 + d))"
  by (simp add: is_digit_def digit_value_char_of)

lemma decimal_nat_digits: "\<forall>c \<in> set (decimal_nat n). is_digit 10 c"
proof (induction n rule: decimal_nat.induct)
  case (1 n)
  show ?case
  proof (cases "n < 10")
    case True
    then show ?thesis by (simp add: is_digit_char_of)
  next
    case False
    have "n mod 10 < 10" by simp
    with False 1 show ?thesis
      by (subst decimal_nat.simps) (simp add: is_digit_char_of del: decimal_nat.simps)
  qed
qed

lemma digits_value_snoc: "digits_value R (Z @ [c]) = digits_value R Z * R + digit_or_zero c"
  by (simp add: digits_value_def)

lemma digits_value_decimal_nat: "digits_value 10 (decimal_nat n) = n"
proof (induction n rule: decimal_nat.induct)
  case (1 n)
  show ?case
  proof (cases "n < 10")
    case True
    then show ?thesis
      by (simp add: digits_value_def digit_or_zero_def digit_value_char_of)
  next
    case False
    have d: "digit_or_zero (char_of (48 + n mod 10)) = n mod 10"
      by (simp add: digit_or_zero_def digit_value_char_of)
    from False 1 have "digits_value 10 (decimal_nat (n div 10)) = n div 10" by simp
    with False d show ?thesis
      by (subst decimal_nat.simps) (simp add: digits_value_snoc del: decimal_nat.simps)
  qed
qed

lemma decimal_nat_not_Nil: "decimal_nat n \<noteq> []"
  by (subst decimal_nat.simps) simp

lemma is_digit_facts:
  "is_digit 10 c \<Longrightarrow>
     \<not> StrWhiteSpaceChar c \<and> c \<noteq> CHR ''+'' \<and> c \<noteq> CHR ''-'' \<and> c \<noteq> CHR ''x'' \<and> c \<noteq> CHR ''X''"
  by (auto simp add: is_digit_def digit_value_def StrWhiteSpaceChar_def Let_def
      split: if_splits)

lemma parseInt_digits:
  assumes "Z \<noteq> []" and "\<forall>c \<in> set Z. is_digit 10 c"
  shows "parseInt Z = Some (int (digits_value 10 Z))
       \<and> parseInt (CHR ''-'' # Z) = Some (- int (digits_value 10 Z))"
proof -
  from assms obtain c cs where Z: "Z = c # cs" by (cases Z) auto
  with assms have c: "is_digit 10 c" by simp
  have nohex: "take 2 Z \<noteq> ''0x''" "take 2 Z \<noteq> ''0X''"
  proof -
    have "CHR ''x'' \<notin> set Z" "CHR ''X'' \<notin> set Z"
      using assms(2) is_digit_facts by blast+
    moreover have "set (take 2 Z) \<subseteq> set Z" by (rule set_take_subset)
    ultimately show "take 2 Z \<noteq> ''0x''" "take 2 Z \<noteq> ''0X''" by auto
  qed
  have tw: "takeWhile (is_digit 10) Z = Z"
    using assms(2) by (simp add: takeWhile_eq_all_conv)
  have dw: "dropWhile StrWhiteSpaceChar Z = Z"
    using Z c is_digit_facts by simp
  have neg: "(case Z of [] \<Rightarrow> False | a # _ \<Rightarrow> a = CHR ''-'') = False"
    using Z is_digit_facts [OF c] by simp
  have S1: "(case Z of [] \<Rightarrow> []
             | a # as \<Rightarrow> if a = CHR ''+'' \<or> a = CHR ''-'' then as else Z) = Z"
    using Z is_digit_facts [OF c] by simp
  have plain: "parseInt Z = Some (int (digits_value 10 Z))"
    unfolding parseInt_def Let_def dw neg S1
    using nohex assms(1) by (simp add: tw)
  have minus: "dropWhile StrWhiteSpaceChar (CHR ''-'' # Z) = CHR ''-'' # Z"
    by (simp add: StrWhiteSpaceChar_def)
  have negative: "parseInt (CHR ''-'' # Z) = Some (- int (digits_value 10 Z))"
    unfolding parseInt_def Let_def minus
    using nohex assms(1) by (simp add: tw)
  from plain negative show ?thesis by simp
qed

lemma digit_chars:
  "char_of (48::nat) = CHR ''0''" "char_of (49::nat) = CHR ''1''"
  "char_of (50::nat) = CHR ''2''" "char_of (51::nat) = CHR ''3''"
  "char_of (52::nat) = CHR ''4''" "char_of (53::nat) = CHR ''5''"
  "char_of (54::nat) = CHR ''6''" "char_of (55::nat) = CHR ''7''"
  "char_of (56::nat) = CHR ''8''" "char_of (57::nat) = CHR ''9''"
  by code_simp+

lemma parseInt_decimal: "parseInt (decimal t) = Some t"
  using parseInt_digits [OF decimal_nat_not_Nil decimal_nat_digits]
  by (simp add: decimal_def digits_value_decimal_nat del: decimal_nat.simps)

lemma expiryMinutes_range: "1 \<le> expiryMinutes x \<and> expiryMinutes x \<le> 10080"
  by (simp add: expiryMinutes_def Let_def split: option.splits)

lemma expiryMinutes_parsed:
  "parseInt s = Some t \<Longrightarrow> t \<noteq> 0 \<Longrightarrow> expiryMinutes (Some s) = max 1 (min 10080 t)"
  by (simp add: expiryMinutes_def Let_def)

lemma upload_handler_Uploaded:
  assumes "upload_handler e new_id now req w = (Uploaded i url ex, w')"
  shows "\<exists>r. uploads w' = uploads w @ [r] \<and> row_id r = new_id \<and> i = new_id
           \<and> row_created_at r = now
           \<and> row_expiry r = now + expiryMinutes (body_expiry req) * 60000
           \<and> ex = row_expiry r
           \<and> (\<exists>name. uploaderName (body_username req) = Inr name
                \<and> row_username r =
                    (case name of Str s \<Rightarrow> s | Arr xs \<Rightarrow> sqlite3_array_text e xs))
           \<and> row_type r = (case req_file req of None \<Rightarrow> ''text'' | Some f \<Rightarrow> ''file'')
           \<and> row_filename r = (case req_file req of None \<Rightarrow> None | Some f \<Rightarrow> Some (originalname f))
           \<and> row_mime_type r =
               Some (case req_file req of None \<Rightarrow> ''text/plain'' | Some f \<Rightarrow> mimetype f)"
  using assms
  by (auto simp add: upload_handler_def db_run_insert_def Let_def
      split: if_splits sum.splits)

lemma upload_handler_stores:
  assumes "req_file req \<noteq> None \<or> truthy (body_text req)"
    and "\<not> write_fails w" and "new_id \<notin> set (ids w)"
    and "uploaderName (body_username req) = Inr name"
  shows "\<exists>url ex r. upload_handler e new_id now req w =
             (Uploaded new_id url ex, w\<lparr>uploads := uploads w @ [r]\<rparr>)
           \<and> row_id r = new_id
           \<and> row_username r =
               (case name of Str s \<Rightarrow> s | Arr xs \<Rightarrow> sqlite3_array_text e xs)"
  using assms
  by (auto simp add: upload_handler_def db_run_insert_def ids_def Let_def)

lemma upload_handler_accepts:
  assumes "req_file req \<noteq> None \<or> truthy (body_text req)"
    and "\<not> write_fails w" and "new_id \<notin> set (ids w)"
    and "uploaderName (body_username req) \<noteq> Inl TypeError"
  shows "\<exists>url ex w'. upload_handler e new_id now req w = (Uploaded new_id url ex, w')"
proof -
  from assms(4) obtain name where "uploaderName (body_username req) = Inr name"
    by (cases "uploaderName (body_username req)") (auto intro: js_error.exhaust)
  from upload_handler_stores [OF assms(1-3) this] show ?thesis
    by blast
qed

lemma upload_handler_answer_expiry:
  "(\<exists>url ex w'. upload_handler e new_id now (req\<lparr>body_expiry := x\<rparr>) w =
       (Uploaded new_id url ex, w'))
   = (\<exists>url ex w'. upload_handler e new_id now (req\<lparr>body_expiry := y\<rparr>) w =
       (Uploaded new_id url ex, w'))"
  by (auto simp add: upload_handler_def db_run_insert_def Let_def
      split: if_splits sum.splits)




text \<open>
  C3, as the code has it: an upload is never refused for its \<open>expiry\<close> field: whether
  it is stored does not depend on what the field holds, and with a payload, a fresh id, a
  database that answers and a \<open>username\<close> on which the handler does not throw it is
  stored.
  For every integer \<open>t\<close> other than 0, sent as its decimal numeral, and for every field
  that \<^verbatim>\<open>parseInt\<close> reads as such a \<open>t\<close>, the minutes used are \<open>t\<close> clamped to
  \<open>[1, 10080]\<close>; whatever the field holds the minutes used lie in \<open>[1, 10080]\<close>; and
  the stored row has \<open>expiry = created_at + minutes * 60000\<close>, which is also the
  \<open>expiry\<close> of the response.
\<close>

theorem expiryMinutes_clamps:
  "(t \<noteq> 0 \<longrightarrow> expiryMinutes (Some (decimal t)) = max 1 (min 10080 t))
   \<and> (parseInt s = Some t \<and> t \<noteq> 0 \<longrightarrow> expiryMinutes (Some s) = max 1 (min 10080 t))
   \<and> 1 \<le> expiryMinutes x \<and> expiryMinutes x \<le> 10080
   \<and> ((req_file req \<noteq> None \<or> truthy (body_text req)) \<and> \<not> write_fails w
        \<and> new_id \<notin> set (ids w) \<and> uploaderName (body_username req) \<noteq> Inl TypeError \<longrightarrow>
        (\<exists>url ex w'. upload_handler e new_id now req w = (Uploaded new_id url ex, w')))
   \<and> ((\<exists>url ex w'. upload_handler e new_id now (req\<lparr>body_expiry := x\<rparr>) w =
          (Uploaded new_id url ex, w'))
      = (\<exists>url ex w'. upload_handler e new_id now (req\<lparr>body_expiry := y\<rparr>) w =
          (Uploaded new_id url ex, w')))
   \<and> (upload_handler e new_id now req w = (Uploaded i url ex, w') \<longrightarrow>
        (\<exists>r. uploads w' = uploads w @ [r] \<and> row_created_at r = now
           \<and> row_expiry r = row_created_at r + expiryMinutes (body_expiry req) * 60000
           \<and> ex = row_expiry r))"
proof -
  have a: "t \<noteq> 0 \<longrightarrow> expiryMinutes (Some (decimal t)) = max 1 (min 10080 t)"
    using expiryMinutes_parsed [OF parseInt_decimal] by simp
  have b: "parseInt s = Some t \<and> t \<noteq> 0 \<longrightarrow> expiryMinutes (Some s) = max 1 (min 10080 t)"
    using expiryMinutes_parsed by simp
  have c: "(req_file req \<noteq> None \<or> truthy (body_text req)) \<and> \<not> write_fails w
        \<and> new_id \<notin> set (ids w) \<and> uploaderName (body_username req) \<noteq> Inl TypeError \<longrightarrow>
        (\<exists>url ex w'. upload_handler e new_id now req w = (Uploaded new_id url ex, w'))"
    using upload_handler_accepts by blast
  have c': "(\<exists>url ex w'. upload_handler e new_id now (req\<lparr>body_expiry := x\<rparr>) w =
          (Uploaded new_id url ex, w'))
      = (\<exists>url ex w'. upload_handler e new_id now (req\<lparr>body_expiry := y\<rparr>) w =
          (Uploaded new_id url ex, w'))"
    by (rule upload_handler_answer_expiry)
  have d: "upload_handler e new_id now req w = (Uploaded i url ex, w') \<longrightarrow>
        (\<exists>r. uploads w' = uploads w @ [r] \<and> row_created_at r = now
           \<and> row_expiry r = row_created_at r + expiryMinutes (body_expiry req) * 60000
           \<and> ex = row_expiry r)"
  proof
    assume "upload_handler e new_id now req w = (Uploaded i url ex, w')"
    from upload_handler_Uploaded [OF this] show
      "\<exists>r. uploads w' = uploads w @ [r] \<and> row_created_at r = now
           \<and> row_expiry r = row_created_at r + expiryMinutes (body_expiry req) * 60000
           \<and> ex = row_expiry r"
      by auto
  qed
  from a b c c' d expiryMinutes_range [of x] show ?thesis by simp
qed

theorem expiryMinutes_clamps_witness:
  "decimal (- 5) = ''-5'' \<and> expiryMinutes (Some ''-5'') = 1
   \<and> decimal 20000 = ''20000'' \<and> expiryMinutes (Some ''20000'') = 10080
   \<and> parseInt ''90 min'' = Some 90 \<and> expiryMinutes (Some ''90 min'') = 90
   \<and> upload_handler sample_env ''n1'' 1000
        ((anonymous [])\<lparr>body_text := Some ''hi'', body_expiry := Some ''-5''\<rparr>) empty_world =
       (Uploaded ''n1'' ''http://localhost:3000/api/download/n1'' 61000,
        empty_world\<lparr>uploads := [\<lparr>row_id = ''n1'', row_type = ''text'', row_content = ''hi'',
          row_expiry = 61000, row_created_at = 1000, row_filename = None,
          row_mime_type = Some ''text/plain'', row_username = ''web client''\<rparr>]\<rparr>)"
proof -
  have d1: "decimal (- 5) = ''-5''"
    by (simp add: decimal_def digit_chars)
  have d2: "decimal 20000 = ''20000''"
    by (simp add: decimal_def digit_chars)
  have p: "parseInt ''90 min'' = Some 90"
    by (simp add: parseInt_def StrWhiteSpaceChar_def is_digit_def digit_value_def
        digits_value_def digit_or_zero_def)
  from expiryMinutes_clamps [of "- 5" "''90 min''"] d1
  have m1: "expiryMinutes (Some ''-5'') = 1" by simp
  from expiryMinutes_clamps [of 20000 "''90 min''"] d2
  have m2: "expiryMinutes (Some ''20000'') = 10080" by simp
  from expiryMinutes_clamps [of 90 "''90 min''"] p
  have m3: "expiryMinutes (Some ''90 min'') = 90" by simp
  have up: "upload_handler sample_env ''n1'' 1000
        ((anonymous [])\<lparr>body_text := Some ''hi'', body_expiry := Some ''-5''\<rparr>) empty_world =
       (Uploaded ''n1'' ''http://localhost:3000/api/download/n1'' 61000,
        empty_world\<lparr>uploads := [\<lparr>row_id = ''n1'', row_type = ''text'', row_content = ''hi'',
          row_expiry = 61000, row_created_at = 1000, row_filename = None,
          row_mime_type = Some ''text/plain'', row_username = ''web client''\<rparr>]\<rparr>)"
    by (simp add: upload_handler_def db_run_insert_def m1 truthy_def or_default_def
        uploaderName_def anonymous_def empty_world_def sample_env_def)
  from d1 d2 p m1 m2 m3 up show ?thesis by simp
qed

text \<open>
  The claim fails at \<open>t = 0\<close>: \<^verbatim>\<open>parseInt("0") || 60\<close> is 60, so the minutes used
  are 60 and not 0 clamped, which is 1.
\<close>

theorem expiryMinutes_zero_is_default:
  "decimal 0 = ''0'' \<and> expiryMinutes (Some ''0'') = 60 \<and> max 1 (min 10080 (0::int)) = 1"
proof -
  have "decimal 0 = ''0''"
    by (simp add: decimal_def digit_chars)
  moreover have "expiryMinutes (Some ''0'') = 60"
    by (simp add: expiryMinutes_def parseInt_def StrWhiteSpaceChar_def is_digit_def
        digit_value_def digits_value_def digit_or_zero_def)
  ultimately show ?thesis by simp
qed

text \<open>
  C7: an upload whose request has no file and whose \<open>text\<close> field is absent or empty is
  answered 400 by the handler, which leaves the state as it was, so a listing afterwards
  is the listing before. On the route the answer is that 400, or 401 when the key is
  missing or wrong, and the state is unchanged as well.
\<close>

theorem upload_without_payload_rejected:
  assumes "req_file req = None" and "\<not> truthy (body_text req)"
  shows "upload_handler e new_id now req w = (BadRequest, w)
       \<and> status BadRequest = 400
       \<and> list_handler t (snd (upload_handler e new_id now req w)) = list_handler t w
       \<and> app e new_id now PostUpload req w =
           (if authenticateParams e req then BadRequest else Unauthorized, w)"
  using assms
  by (simp add: upload_handler_def guarded_def upload_single_def)

theorem upload_without_payload_rejected_witness:
  "req_file (anonymous []) = None \<and> \<not> truthy (body_text (anonymous []))
   \<and> upload_handler sample_env ''n1'' 1000 (anonymous []) sample_world = (BadRequest, sample_world)
   \<and> app sample_env ''n1'' 1000 PostUpload
        ((anonymous [])\<lparr>header_x_api_key := Some ''secret'', body_text := Some []\<rparr>) sample_world =
       (BadRequest, sample_world)"
proof -
  have h: "req_file (anonymous []) = None" "\<not> truthy (body_text (anonymous []))"
    by (simp_all add: anonymous_def truthy_def)
  have h': "req_file ((anonymous [])\<lparr>header_x_api_key := Some ''secret'', body_text := Some []\<rparr>) = None"
    "\<not> truthy (body_text ((anonymous [])\<lparr>header_x_api_key := Some ''secret'', body_text := Some []\<rparr>))"
    by (simp_all add: anonymous_def truthy_def)
  have auth: "authenticateParams sample_env
      ((anonymous [])\<lparr>header_x_api_key := Some ''secret'', body_text := Some []\<rparr>)"
    by (simp add: authenticateParams_def js_or_def truthy_def API_KEY_def or_default_def
        sample_env_def anonymous_def)
  from upload_without_payload_rejected [OF h, of sample_env "''n1''" 1000 sample_world]
    upload_without_payload_rejected [OF h', of sample_env "''n1''" 1000 sample_world] auth h
  show ?thesis by simp
qed




text \<open>
  C9, as the code has it: the row an upload stores for a text item (a request without a
  file) has \<open>filename\<close> null and \<open>mime_type\<close> \<^verbatim>\<open>text/plain\<close>; the row of a file item
  has the file's original name and MIME type. So \<open>filename\<close> is present exactly on file
  items, while \<open>mime_type\<close> is present on every stored row.
\<close>

theorem upload_text_row_fields:
  assumes "upload_handler e new_id now req w = (Uploaded i url ex, w')"
  shows "\<exists>r. uploads w' = uploads w @ [r]
       \<and> (row_type r = ''text'') = (req_file req = None)
       \<and> (row_type r = ''file'') = (req_file req \<noteq> None)
       \<and> (row_filename r = None) = (row_type r = ''text'')
       \<and> (row_type r = ''text'' \<longrightarrow> row_mime_type r = Some ''text/plain'')
       \<and> (\<forall>f. req_file req = Some f \<longrightarrow>
            row_filename r = Some (originalname f) \<and> row_mime_type r = Some (mimetype f))
       \<and> row_mime_type r \<noteq> None"
proof -
  from upload_handler_Uploaded [OF assms] obtain r where
    r: "uploads w' = uploads w @ [r]"
      "row_type r = (case req_file req of None \<Rightarrow> ''text'' | Some f \<Rightarrow> ''file'')"
      "row_filename r = (case req_file req of None \<Rightarrow> None | Some f \<Rightarrow> Some (originalname f))"
      "row_mime_type r = Some (case req_file req of None \<Rightarrow> ''text/plain'' | Some f \<Rightarrow> mimetype f)"
    by blast
  show ?thesis
  proof (cases "req_file req")
    case None
    with r show ?thesis by simp
  next
    case (Some f)
    with r show ?thesis by simp
  qed
qed

theorem upload_text_row_fields_witness:
  "upload_handler sample_env ''n1'' 1000
        ((anonymous [])\<lparr>body_text := Some ''hi''\<rparr>) empty_world =
       (Uploaded ''n1'' ''http://localhost:3000/api/download/n1'' 3601000,
        empty_world\<lparr>uploads := [\<lparr>row_id = ''n1'', row_type = ''text'', row_content = ''hi'',
          row_expiry = 3601000, row_created_at = 1000, row_filename = None,
          row_mime_type = Some ''text/plain'', row_username = ''web client''\<rparr>]\<rparr>)
   \<and> (\<exists>r. uploads (empty_world\<lparr>uploads := [\<lparr>row_id = ''n1'', row_type = ''text'',
          row_content = ''hi'', row_expiry = 3601000, row_created_at = 1000, row_filename = None,
          row_mime_type = Some ''text/plain'', row_username = ''web client''\<rparr>]\<rparr>) =
          uploads empty_world @ [r] \<and> row_filename r = None
          \<and> row_mime_type r = Some ''text/plain'')"
proof -
  have up: "upload_handler sample_env ''n1'' 1000
        ((anonymous [])\<lparr>body_text := Some ''hi''\<rparr>) empty_world =
       (Uploaded ''n1'' ''http://localhost:3000/api/download/n1'' 3601000,
        empty_world\<lparr>uploads := [\<lparr>row_id = ''n1'', row_type = ''text'', row_content = ''hi'',
          row_expiry = 3601000, row_created_at = 1000, row_filename = None,
          row_mime_type = Some ''text/plain'', row_username = ''web client''\<rparr>]\<rparr>)"
    by (simp add: upload_handler_def db_run_insert_def expiryMinutes_def truthy_def
        or_default_def uploaderName_def anonymous_def empty_world_def sample_env_def)
  from upload_text_row_fields [OF up] up show ?thesis
    by (auto simp add: anonymous_def)
qed

text \<open>
  The claim fails for \<open>mime_type\<close>: the row stored for a text upload has
  \<open>mime_type = text/plain\<close>, not null.
\<close>

theorem upload_text_row_has_mime_type:
  "map row_type (uploads (snd (upload_handler sample_env ''n1'' 1000
      ((anonymous [])\<lparr>body_text := Some ''hi''\<rparr>) empty_world))) = [''text'']
   \<and> map row_mime_type (uploads (snd (upload_handler sample_env ''n1'' 1000
      ((anonymous [])\<lparr>body_text := Some ''hi''\<rparr>) empty_world))) = [Some ''text/plain'']"
  by (simp add: upload_handler_def db_run_insert_def expiryMinutes_def truthy_def
      or_default_def uploaderName_def anonymous_def empty_world_def sample_env_def)

section \<open>Authentication of the routes\<close>

lemma download_handler_not_Unauthorized:
  "fst (download_handler now req w) \<noteq> Unauthorized"
  by (simp add: download_handler_def split: sql_result.splits option.splits)

text \<open>
  C10: the answer of \<^verbatim>\<open>GET /api/download/:id\<close> depends on the request through its
  \<open>id\<close> alone, so two requests for the same id that differ in the key they carry in
  the header, the query or the cookie get the same answer at the same time, and that
  answer is never 401. A request that \<^verbatim>\<open>authenticateParams\<close> refuses, as it does
  every request none of whose three credentials is the API key, is answered 401 by the
  upload, list, delete and cleanup routes, which then leave the table as it was, and by
  no other item route.
\<close>

theorem download_needs_no_key:
  "(param_id req' = param_id req \<longrightarrow>
      app e new_id now GetDownload req' w = app e new_id now GetDownload req w)
   \<and> app e new_id now GetDownload
        (req\<lparr>header_x_api_key := h, query_api_key := q, cookie_auth_token := c\<rparr>) w =
       app e new_id now GetDownload req w
   \<and> fst (app e new_id now GetDownload req w) \<noteq> Unauthorized
   \<and> (\<not> authenticateParams e req \<longrightarrow>
        (fst (app e new_id now rt req w) = Unauthorized) = (rt \<noteq> GetDownload)
        \<and> uploads (snd (app e new_id now rt req w)) = uploads w)
   \<and> (header_x_api_key req \<noteq> Some (API_KEY e) \<and> query_api_key req \<noteq> Some (API_KEY e)
        \<and> cookie_auth_token req \<noteq> Some (API_KEY e) \<longrightarrow> \<not> authenticateParams e req)"
proof -
  have same: "param_id req' = param_id req \<longrightarrow>
      app e new_id now GetDownload req' w = app e new_id now GetDownload req w"
    by (simp add: download_handler_def)
  have creds: "app e new_id now GetDownload
        (req\<lparr>header_x_api_key := h, query_api_key := q, cookie_auth_token := c\<rparr>) w =
       app e new_id now GetDownload req w"
    by (simp add: download_handler_def)
  have open_route: "fst (app e new_id now GetDownload req w) \<noteq> Unauthorized"
    using download_handler_not_Unauthorized by simp
  have closed_routes: "\<not> authenticateParams e req \<longrightarrow>
        (fst (app e new_id now rt req w) = Unauthorized) = (rt \<noteq> GetDownload)
        \<and> uploads (snd (app e new_id now rt req w)) = uploads w"
  proof
    assume no: "\<not> authenticateParams e req"
    have up: "uploads (upload_single req w) = uploads w"
      by (simp add: upload_single_def split: option.splits)
    have dl: "snd (download_handler now req w) = w"
      by (simp add: download_handler_def split: sql_result.splits option.splits)
    from no up dl open_route show
      "(fst (app e new_id now rt req w) = Unauthorized) = (rt \<noteq> GetDownload)
        \<and> uploads (snd (app e new_id now rt req w)) = uploads w"
      by (cases rt) (simp_all add: guarded_def)
  qed
  have nokey: "header_x_api_key req \<noteq> Some (API_KEY e) \<and> query_api_key req \<noteq> Some (API_KEY e)
        \<and> cookie_auth_token req \<noteq> Some (API_KEY e) \<longrightarrow> \<not> authenticateParams e req"
    by (auto simp add: authenticateParams_def js_or_def Let_def split: if_splits)
  from same creds open_route closed_routes nokey show ?thesis by simp
qed

theorem download_needs_no_key_witness:
  "\<not> authenticateParams sample_env (anonymous ''t1'')
   \<and> \<not> authenticateParams sample_env ((anonymous ''t1'')\<lparr>query_api_key := Some ''guess''\<rparr>)
   \<and> authenticateParams sample_env ((anonymous ''t1'')\<lparr>cookie_auth_token := Some ''secret''\<rparr>)
   \<and> app sample_env ''n1'' 60 GetDownload (anonymous ''t1'') sample_world =
       (TextBody ''hello'', sample_world)
   \<and> app sample_env ''n1'' 60 GetDownload
        ((anonymous ''t1'')\<lparr>query_api_key := Some ''guess''\<rparr>) sample_world =
       (TextBody ''hello'', sample_world)
   \<and> fst (app sample_env ''n1'' 60 PostUpload (anonymous ''t1'') sample_world) = Unauthorized
   \<and> fst (app sample_env ''n1'' 60 GetList (anonymous ''t1'') sample_world) = Unauthorized
   \<and> fst (app sample_env ''n1'' 60 DeleteItem (anonymous ''t1'') sample_world) = Unauthorized
   \<and> fst (app sample_env ''n1'' 60 DeleteCleanup (anonymous ''t1'') sample_world) = Unauthorized"
proof -
  have no: "\<not> authenticateParams sample_env (anonymous ''t1'')"
    by (simp add: authenticateParams_def js_or_def truthy_def anonymous_def)
  have guess: "\<not> authenticateParams sample_env
      ((anonymous ''t1'')\<lparr>query_api_key := Some ''guess''\<rparr>)"
    by (simp add: authenticateParams_def js_or_def truthy_def API_KEY_def or_default_def
        sample_env_def anonymous_def)
  have yes: "authenticateParams sample_env
      ((anonymous ''t1'')\<lparr>cookie_auth_token := Some ''secret''\<rparr>)"
    by (simp add: authenticateParams_def js_or_def truthy_def API_KEY_def or_default_def
        sample_env_def anonymous_def)
  have dl: "app sample_env ''n1'' 60 GetDownload (anonymous ''t1'') sample_world =
       (TextBody ''hello'', sample_world)"
    by (simp add: download_handler_def db_get_def anonymous_def sample_world_def
        file_row_def text_row_def)
  have p: "param_id ((anonymous ''t1'')\<lparr>query_api_key := Some ''guess''\<rparr>) =
      param_id (anonymous ''t1'')"
    by simp
  note inst = download_needs_no_key [of _ "anonymous ''t1''" sample_env "''n1''" 60 sample_world]
  from inst [of "(anonymous ''t1'')\<lparr>query_api_key := Some ''guess''\<rparr>"] p dl
  have dl': "app sample_env ''n1'' 60 GetDownload
        ((anonymous ''t1'')\<lparr>query_api_key := Some ''guess''\<rparr>) sample_world =
       (TextBody ''hello'', sample_world)"
    by simp
  from inst [of "anonymous ''t1''" _ _ _ PostUpload] no
  have r1: "fst (app sample_env ''n1'' 60 PostUpload (anonymous ''t1'') sample_world) = Unauthorized"
    by simp
  from inst [of "anonymous ''t1''" _ _ _ GetList] no
  have r2: "fst (app sample_env ''n1'' 60 GetList (anonymous ''t1'') sample_world) = Unauthorized"
    by simp
  from inst [of "anonymous ''t1''" _ _ _ DeleteItem] no
  have r3: "fst (app sample_env ''n1'' 60 DeleteItem (anonymous ''t1'') sample_world) = Unauthorized"
    by simp
  from inst [of "anonymous ''t1''" _ _ _ DeleteCleanup] no
  have r4: "fst (app sample_env ''n1'' 60 DeleteCleanup (anonymous ''t1'') sample_world) = Unauthorized"
    by simp
  from no guess yes dl dl' r1 r2 r3 r4 show ?thesis by simp
qed

end
